theory Spec2Isabelle
  imports Complex_Main
begin

section \<open>Rock-paper-scissors with a Markov chain: the model of \<open>src/main.py\<close>\<close>

text \<open>
  The program keeps a 9 x 9 table of weights (\<open>transition_matrix\<close>), indexed by the
  outcome of the player's previous round and of the current one, and plays the move that
  beats the move the table predicts. The embedding follows the source function by
  function. Python's unbounded integers are \<open>int\<close>. The cells of the table are
  \<open>numpy.float64\<close> in the source; they are modelled by \<open>real\<close>, the numbers the
  floating-point values stand for, so \<open>+\<close>, \<open>-\<close> and \<open>\<le>\<close> are exact and the rounding of
  binary64 arithmetic is not part of the model. The module-level table is passed to every
  function that reads it (parameter \<open>tm\<close>) and returned by the one that writes it.
  Exceptions are values of type \<open>error\<close>, on the left of a sum.
\<close>

subsection \<open>Exceptions\<close>

datatype error = KeyError | ValueError | IndexError

subsection \<open>The enumeration \<open>States\<close>\<close>

datatype States = EM | VR | VP | VS | LR | LP | LS | TR | TP | TS

text \<open>The attribute \<open>.value\<close> of a member.\<close>

fun value_of :: "States \<Rightarrow> int" where
  "value_of EM = -1"
| "value_of VR = 0"
| "value_of VP = 1"
| "value_of VS = 2"
| "value_of LR = 3"
| "value_of LP = 4"
| "value_of LS = 5"
| "value_of TR = 6"
| "value_of TP = 7"
| "value_of TS = 8"

text \<open>
  The call \<open>States(v)\<close>: the member whose value is \<open>v\<close>, and \<open>ValueError\<close> when there
  is none.
\<close>

definition States_of_value :: "int \<Rightarrow> error + States" where
  "States_of_value v =
     (if v = -1 then Inr EM
      else if v = 0 then Inr VR
      else if v = 1 then Inr VP
      else if v = 2 then Inr VS
      else if v = 3 then Inr LR
      else if v = 4 then Inr LP
      else if v = 5 then Inr LS
      else if v = 6 then Inr TR
      else if v = 7 then Inr TP
      else if v = 8 then Inr TS
      else Inl ValueError)"

subsection \<open>Module-level constants\<close>

definition what_beats_what_dict :: "int \<rightharpoonup> int" where
  "what_beats_what_dict = [0 \<mapsto> 2, 1 \<mapsto> 0, 2 \<mapsto> 1]"

definition decrease_value :: real where
  "decrease_value = 1 / 100"

definition increase_value :: real where
  "increase_value = 1 / 10"

definition upper_limit :: real where
  "upper_limit = 1 - increase_value + decrease_value"

definition bottom_limit :: real where
  "bottom_limit = 0 + decrease_value"

type_synonym matrix = "real list list"

text \<open>The initial table: nine rows of nine cells, each the literal \<open>0.11\<close>.\<close>

definition transition_matrix :: matrix where
  "transition_matrix =
     [[11/100, 11/100, 11/100, 11/100, 11/100, 11/100, 11/100, 11/100, 11/100],
      [11/100, 11/100, 11/100, 11/100, 11/100, 11/100, 11/100, 11/100, 11/100],
      [11/100, 11/100, 11/100, 11/100, 11/100, 11/100, 11/100, 11/100, 11/100],
      [11/100, 11/100, 11/100, 11/100, 11/100, 11/100, 11/100, 11/100, 11/100],
      [11/100, 11/100, 11/100, 11/100, 11/100, 11/100, 11/100, 11/100, 11/100],
      [11/100, 11/100, 11/100, 11/100, 11/100, 11/100, 11/100, 11/100, 11/100],
      [11/100, 11/100, 11/100, 11/100, 11/100, 11/100, 11/100, 11/100, 11/100],
      [11/100, 11/100, 11/100, 11/100, 11/100, 11/100, 11/100, 11/100, 11/100],
      [11/100, 11/100, 11/100, 11/100, 11/100, 11/100, 11/100, 11/100, 11/100]]"

subsection \<open>The numpy operations the program uses\<close>

text \<open>
  Indexing an axis of length \<open>n\<close> with the integer \<open>i\<close>: a negative index counts from
  the end, and an index outside \<open>-n .. n-1\<close> raises \<open>IndexError\<close>. The result is the
  position read or written.
\<close>

definition np_index :: "nat \<Rightarrow> int \<Rightarrow> error + nat" where
  "np_index n i =
     (if 0 \<le> i \<and> i < int n then Inr (nat i)
      else if - int n \<le> i \<and> i < 0 then Inr (nat (int n + i))
      else Inl IndexError)"

text \<open>\<open>np.min\<close> of a vector; it raises \<open>ValueError\<close> on an empty one.\<close>

definition np_min :: "real list \<Rightarrow> error + real" where
  "np_min vector = (case vector of [] \<Rightarrow> Inl ValueError | x # xs \<Rightarrow> Inr (fold min xs x))"

text \<open>
  \<open>argmax\<close> of a vector: the position of the first occurrence of the maximum, found by
  one scan that replaces the best position only on a strictly greater entry.
\<close>

primrec argmax_scan :: "real list \<Rightarrow> nat \<Rightarrow> nat \<Rightarrow> real \<Rightarrow> nat" where
  "argmax_scan [] i best_i best = best_i"
| "argmax_scan (x # xs) i best_i best =
     (if best < x then argmax_scan xs (Suc i) i x else argmax_scan xs (Suc i) best_i best)"

definition argmax :: "real list \<Rightarrow> error + nat" where
  "argmax vector =
     (case vector of [] \<Rightarrow> Inl ValueError | x # xs \<Rightarrow> Inr (argmax_scan xs 1 0 x))"

subsection \<open>\<open>computer_move\<close>\<close>

text \<open>
  The three sums of \<open>decision_vector\<close>. The subscripts are the constants 0 to 8, so the
  expression raises \<open>IndexError\<close> exactly when the vector has fewer than nine entries.
\<close>

definition decision_vector :: "real list \<Rightarrow> error + real list" where
  "decision_vector vector =
     (if length vector < 9 then Inl IndexError
      else Inr [vector ! 0 + vector ! 3 + vector ! 6,
                vector ! 1 + vector ! 4 + vector ! 7,
                vector ! 2 + vector ! 5 + vector ! 8])"

definition counter_plays :: "int \<rightharpoonup> int" where
  "counter_plays = [2 \<mapsto> 0, 1 \<mapsto> 2, 0 \<mapsto> 1]"

text \<open>
  \<open>randint\<close> is the value that \<open>random.randint(0, 2)\<close> returns in this call; it is only
  used in the first branch.
\<close>

definition computer_move :: "States \<Rightarrow> matrix \<Rightarrow> int \<Rightarrow> error + int" where
  "computer_move last_move_outcome tm randint =
     (if last_move_outcome = EM then Inr randint
      else
        (case np_index (length tm) (value_of last_move_outcome) of
           Inl e \<Rightarrow> Inl e
         | Inr r \<Rightarrow>
            (case decision_vector (tm ! r) of
               Inl e \<Rightarrow> Inl e
             | Inr dv \<Rightarrow>
                (case argmax dv of
                   Inl e \<Rightarrow> Inl e
                 | Inr k \<Rightarrow>
                    (case counter_plays (int k) of
                       None \<Rightarrow> Inl KeyError
                     | Some c \<Rightarrow> Inr c)))))"

subsection \<open>\<open>decide_round_result\<close>\<close>

definition decide_round_result :: "int \<Rightarrow> int \<Rightarrow> error + int" where
  "decide_round_result player_choice computer_choice =
     (if player_choice = computer_choice then Inr 0
      else
        (case what_beats_what_dict player_choice of
           None \<Rightarrow> Inl KeyError
         | Some b \<Rightarrow> if b = computer_choice then Inr 1 else Inr (-1)))"

subsection \<open>\<open>update_probabilities\<close>\<close>

text \<open>
  The function has two parts. The first (lines 157 to 162) computes \<open>current_state\<close>
  from the player's move and the result of the round.
\<close>

definition current_state_of :: "int \<Rightarrow> int \<Rightarrow> error + States" where
  "current_state_of player_choice round_result =
     (if round_result = 1 then States_of_value player_choice
      else if round_result = -1 then States_of_value (player_choice + 3)
      else States_of_value (player_choice + 6))"

text \<open>
  The second part (lines 164 to 168) updates the row of the previous state in place.
  \<open>vector\<close> is a view of that row, so both assignments write into the table. The
  condition is an \<open>and\<close>: \<open>np.min\<close> is only evaluated when the first comparison holds.
\<close>

definition reinforce :: "States \<Rightarrow> States \<Rightarrow> matrix \<Rightarrow> error + matrix" where
  "reinforce last_move_outcome current_state tm =
     (if last_move_outcome \<noteq> EM then
        (case np_index (length tm) (value_of last_move_outcome) of
           Inl e \<Rightarrow> Inl e
         | Inr r \<Rightarrow>
            (let vector = tm ! r in
             (case np_index (length vector) (value_of current_state) of
                Inl e \<Rightarrow> Inl e
              | Inr c \<Rightarrow>
                 if vector ! c \<le> upper_limit then
                   (case np_min vector of
                      Inl e \<Rightarrow> Inl e
                    | Inr lowest \<Rightarrow>
                       if lowest \<ge> bottom_limit then
                         (let vector1 = map (\<lambda>x. x - decrease_value) vector;
                              vector2 = vector1[c := vector1 ! c + increase_value]
                          in Inr (tm[r := vector2]))
                       else Inr tm)
                 else Inr tm)))
      else Inr tm)"

definition update_probabilities ::
  "int \<Rightarrow> int \<Rightarrow> States \<Rightarrow> matrix \<Rightarrow> error + (States \<times> matrix)" where
  "update_probabilities player_choice round_result last_move_outcome tm =
     (case current_state_of player_choice round_result of
        Inl e \<Rightarrow> Inl e
      | Inr current_state \<Rightarrow>
         (case reinforce last_move_outcome current_state tm of
            Inl e \<Rightarrow> Inl e
          | Inr tm' \<Rightarrow> Inr (current_state, tm')))"

subsection \<open>\<open>game_handler\<close>\<close>

text \<open>
  The loop of \<open>game_handler\<close>. Each element of \<open>inputs\<close> gives, for one round,
  the move that \<open>player_move\<close> returns (0, 1 or 2: the function asks again on any
  other answer) and the value that \<open>random.randint\<close> returns if \<open>computer_move\<close>
  draws one in that round. The loop runs while its condition holds and there is input; the
  result is the state it has then: the last outcome, the round counter, the score and the
  table. Of the printing, the model keeps the two dictionary lookups, which can raise.
\<close>

definition moves_dict :: "int \<rightharpoonup> string" where
  "moves_dict = [0 \<mapsto> ''rock'', 1 \<mapsto> ''paper'', 2 \<mapsto> ''scissors'']"

definition outcomes_dict :: "int \<rightharpoonup> string" where
  "outcomes_dict = [0 \<mapsto> ''It's a tie!'', 1 \<mapsto> ''You won!'', -1 \<mapsto> ''You lost!'']"

fun game_loop ::
  "(int \<times> int) list \<Rightarrow> States \<Rightarrow> int \<Rightarrow> int \<Rightarrow> matrix \<Rightarrow>
     error + (States \<times> int \<times> int \<times> matrix)" where
  "game_loop [] last_move_outcome round_counter score tm =
     Inr (last_move_outcome, round_counter, score, tm)"
| "game_loop ((player_choice, randint) # inputs) last_move_outcome round_counter score tm =
     (if round_counter < 30 \<and> 10 > score \<and> score > -10 then
        (case computer_move last_move_outcome tm randint of
           Inl e \<Rightarrow> Inl e
         | Inr computer_choice \<Rightarrow>
            if moves_dict player_choice = None \<or> moves_dict computer_choice = None
            then Inl KeyError
            else
              (case decide_round_result player_choice computer_choice of
                 Inl e \<Rightarrow> Inl e
               | Inr round_result \<Rightarrow>
                  if outcomes_dict round_result = None then Inl KeyError
                  else
                    (case update_probabilities player_choice round_result
                            last_move_outcome tm of
                       Inl e \<Rightarrow> Inl e
                     | Inr (current_state, tm') \<Rightarrow>
                        game_loop inputs current_state (round_counter + 1)
                          (score + round_result) tm')))
      else Inr (last_move_outcome, round_counter, score, tm))"

definition game_handler ::
  "(int \<times> int) list \<Rightarrow> error + (States \<times> int \<times> int \<times> matrix)" where
  "game_handler inputs = game_loop inputs EM 0 0 transition_matrix"

subsection \<open>Reachable tables\<close>

text \<open>
  The tables the program can hold: the initial one, and every table that a call of the
  update with some previous and some current state leaves behind.
\<close>

inductive reachable :: "matrix \<Rightarrow> bool" where
  initial: "reachable transition_matrix"
| update: "reachable tm \<Longrightarrow> reinforce previous observed tm = Inr tm' \<Longrightarrow> reachable tm'"

subsection \<open>Notions of the specification\<close>

text \<open>
  The definitions of this subsection are not functions of the program: they state, in the
  specification's words, what the theorems below compare the program with.
\<close>

text \<open>The table has nine rows of nine cells.\<close>

definition shape_9x9 :: "matrix \<Rightarrow> bool" where
  "shape_9x9 tm \<longleftrightarrow> length tm = 9 \<and> (\<forall>row \<in> set tm. length row = 9)"


text \<open>The cycle of the game: rock (0) beats scissors (2), paper (1) beats rock, scissors beat paper.\<close>

definition beats :: "int \<Rightarrow> int \<Rightarrow> bool" where
  "beats a b \<longleftrightarrow> (a = 0 \<and> b = 2) \<or> (a = 1 \<and> b = 0) \<or> (a = 2 \<and> b = 1)"




text \<open>
  The column that \<open>vector[current_state.value]\<close> reads in a row of nine cells: the
  value of the state, and the last column for the value \<open>-1\<close> of \<open>EM\<close>.
\<close>

definition column_of :: "States \<Rightarrow> nat" where
  "column_of s = (if s = EM then 8 else nat (value_of s))"

section \<open>Auxiliary facts\<close>

subsection \<open>Indexing and the minimum\<close>

lemma fold_min_Min: "fold min xs x = Min (insert x (set xs))"
  using Min.set_eq_fold [of x xs] by simp

lemma np_min_nonempty: "v \<noteq> [] \<Longrightarrow> np_min v = Inr (Min (set v))"
  by (cases v) (auto simp: np_min_def fold_min_Min)


lemma np_index_state: "np_index 9 (value_of s) = Inr (column_of s)"
  by (cases s) (auto simp: np_index_def column_of_def)

lemma column_of_lt: "column_of s < 9"
  by (cases s) (auto simp: column_of_def)

lemma column_of_concrete: "s \<noteq> EM \<Longrightarrow> column_of s = nat (value_of s)"
  by (simp add: column_of_def)

lemma row_index_lt: "s \<noteq> EM \<Longrightarrow> nat (value_of s) < 9"
  by (cases s) auto

lemma shape_row: "shape_9x9 tm \<Longrightarrow> i < 9 \<Longrightarrow> length (tm ! i) = 9"
  by (simp add: shape_9x9_def)

lemma shape_update:
  "shape_9x9 tm \<Longrightarrow> length row = 9 \<Longrightarrow> shape_9x9 (tm[r := row])"
  by (auto simp: shape_9x9_def dest!: set_update_subset_insert [THEN subsetD])


lemma initial_shape: "shape_9x9 transition_matrix"
  by (simp add: shape_9x9_def transition_matrix_def)

lemma initial_replicate: "transition_matrix = replicate 9 (replicate 9 (11 / 100))"
  by (simp add: transition_matrix_def eval_nat_numeral)

lemma initial_cells:
  assumes "i < 9" "j < 9"
  shows "transition_matrix ! i ! j = 11 / 100"
proof -
  have "transition_matrix ! i = replicate 9 (11 / 100)"
    using assms(1) by (simp only: initial_replicate nth_replicate)
  then show ?thesis
    using assms(2) by (simp only: nth_replicate)
qed

subsection \<open>The update on a table of nine rows of nine cells\<close>

lemma reinforce_EM: "reinforce EM observed tm = Inr tm"
  by (simp add: reinforce_def)

text \<open>On such a table no index is out of range, and the update is one conditional.\<close>

lemma reinforce_shape:
  assumes "shape_9x9 tm" "previous \<noteq> EM"
  shows "reinforce previous observed tm =
     (let r = nat (value_of previous); c = column_of observed; vector = tm ! r in
      if vector ! c \<le> upper_limit \<and> bottom_limit \<le> Min (set vector)
      then Inr (tm[r := (map (\<lambda>x. x - decrease_value) vector)
                          [c := vector ! c - decrease_value + increase_value]])
      else Inr tm)"
proof -
  let ?r = "nat (value_of previous)"
  have len: "length tm = 9" using assms(1) by (simp add: shape_9x9_def)
  have r: "?r < 9" by (rule row_index_lt [OF assms(2)])
  have lrow: "length (tm ! ?r) = 9" using assms(1) r by (simp add: shape_row)
  then have ne: "tm ! ?r \<noteq> []" by auto
  have c: "column_of observed < length (tm ! ?r)" using lrow column_of_lt by simp
  show ?thesis
    using assms(2) c
    by (simp add: reinforce_def len lrow np_index_state column_of_concrete [OF assms(2)]
        np_min_nonempty [OF ne] Let_def)
qed

lemma reinforce_total:
  assumes "shape_9x9 tm"
  shows "\<exists>tm'. reinforce previous observed tm = Inr tm'"
proof (cases "previous = EM")
  case True
  then show ?thesis by (simp add: reinforce_EM)
next
  case False
  then show ?thesis by (simp add: reinforce_shape [OF assms] Let_def)
qed

lemma reinforce_keeps_shape:
  assumes "shape_9x9 tm" "reinforce previous observed tm = Inr tm'"
  shows "shape_9x9 tm'"
proof (cases "previous = EM")
  case True
  then show ?thesis using assms by (simp add: reinforce_EM)
next
  case False
  have "length (tm ! nat (value_of previous)) = 9"
    using assms(1) row_index_lt [OF False] by (simp add: shape_row)
  then show ?thesis
    using assms False
    by (auto simp: reinforce_shape Let_def shape_update split: if_splits)
qed



subsection \<open>Reachable tables\<close>

lemma reachable_shape: "reachable tm \<Longrightarrow> shape_9x9 tm"
proof (induction rule: reachable.induct)
  case initial
  show ?case by (rule initial_shape)
next
  case (update tm previous observed tm')
  then show ?case by (simp add: reinforce_keeps_shape)
qed




text \<open>Every call of \<open>update_probabilities\<close> is one update of the table.\<close>

lemma update_probabilities_reinforce:
  "update_probabilities player_choice round_result last_move_outcome tm = Inr (s, tm') \<Longrightarrow>
   reinforce last_move_outcome s tm = Inr tm'"
  by (auto simp: update_probabilities_def split: sum.splits)

lemma game_loop_reachable:
  "reachable tm \<Longrightarrow> game_loop inputs s rc sc tm = Inr (s', rc', sc', tm') \<Longrightarrow> reachable tm'"
proof (induction inputs arbitrary: s rc sc tm)
  case Nil
  then show ?case by simp
next
  case (Cons x inputs)
  obtain p d where x: "x = (p, d)" by (cases x)
  show ?case
  proof (cases "rc < 30 \<and> 10 > sc \<and> sc > -10")
    case False
    then show ?thesis using Cons.prems by (auto simp: x)
  next
    case True
    with Cons.prems(2) obtain c r s1 tm1 where
      u: "update_probabilities p r s tm = Inr (s1, tm1)"
      and rest: "game_loop inputs s1 (rc + 1) (sc + r) tm1 = Inr (s', rc', sc', tm')"
      by (auto simp: x split: sum.splits if_splits)
    have "reachable tm1"
      using Cons.prems(1) update_probabilities_reinforce [OF u] by (rule reachable.update)
    then show ?thesis using rest by (rule Cons.IH)
  qed
qed

lemma game_handler_reachable:
  "game_handler inputs = Inr (s, rc, sc, tm) \<Longrightarrow> reachable tm"
  unfolding game_handler_def using reachable.initial by (rule game_loop_reachable)

subsection \<open>Runs on the initial table\<close>



text \<open>
  A game of eleven rounds. The computer draws rock and the player wins with paper; then the
  player throws rock ten times and loses each time to paper. The row of \<open>LR\<close> is
  updated nine times with \<open>LR\<close> observed, and the cell of that transition ends above
  \<open>upper_limit\<close>.
\<close>

lemmas run_defs =
  game_handler_def moves_dict_def outcomes_dict_def computer_move_def decision_vector_def argmax_def counter_plays_def
  decide_round_result_def what_beats_what_dict_def
  update_probabilities_def current_state_of_def States_of_value_def
  reinforce_def transition_matrix_def np_index_def np_min_def
  upper_limit_def bottom_limit_def increase_value_def decrease_value_def Let_def



text \<open>
  The game goes on for three rounds: the player wins with scissors and loses twice with
  rock, which ends the game at the score -10. The row of \<open>LR\<close> is updated twice more,
  eleven times in all; before the last update its minimum is exactly \<open>bottom_limit\<close>
  and the observed cell exactly \<open>upper_limit\<close>, so the update is made.
\<close>

lemma game_of_fourteen_rounds:
  "game_handler [(1,0),(0,0),(0,0),(0,0),(0,0),(0,0),(0,0),(0,0),(0,0),(0,0),(0,0),
                 (2,0),(0,0),(0,0)] =
   Inr (LR, 14, -10, transition_matrix
        [1 := [1/10, 1/10, 1/10, 1/5, 1/10, 1/10, 1/10, 1/10, 1/10],
         2 := [1/10, 1/10, 1/10, 1/5, 1/10, 1/10, 1/10, 1/10, 1/10],
         3 := [0, 0, 1/10, 1, 0, 0, 0, 0, 0]])"
  by (simp add: run_defs)

lemma reachable_after_fourteen_rounds:
  "reachable (transition_matrix
        [1 := [1/10, 1/10, 1/10, 1/5, 1/10, 1/10, 1/10, 1/10, 1/10],
         2 := [1/10, 1/10, 1/10, 1/5, 1/10, 1/10, 1/10, 1/10, 1/10],
         3 := [0, 0, 1/10, 1, 0, 0, 0, 0, 0]])"
  using game_of_fourteen_rounds by (rule game_handler_reachable)

text \<open>
  A call of \<open>update_probabilities\<close> on that table, for a round won with scissors after
  \<open>LR\<close>: the row of \<open>LR\<close> holds cells below \<open>bottom_limit\<close>, so the table stays
  as it is, and the state returned is \<open>VS\<close>.
\<close>

lemma frozen_round:
  "update_probabilities 2 1 LR (transition_matrix
        [1 := [1/10, 1/10, 1/10, 1/5, 1/10, 1/10, 1/10, 1/10, 1/10],
         2 := [1/10, 1/10, 1/10, 1/5, 1/10, 1/10, 1/10, 1/10, 1/10],
         3 := [0, 0, 1/10, 1, 0, 0, 0, 0, 0]]) =
   Inr (VS, transition_matrix
        [1 := [1/10, 1/10, 1/10, 1/5, 1/10, 1/10, 1/10, 1/10, 1/10],
         2 := [1/10, 1/10, 1/10, 1/5, 1/10, 1/10, 1/10, 1/10, 1/10],
         3 := [0, 0, 1/10, 1, 0, 0, 0, 0, 0]])"
  by (simp add: run_defs)

subsection \<open>The decision on a table of nine rows of nine cells\<close>




text \<open>The decision reads the table only at the row of the previous state.\<close>

lemma computer_move_row:
  assumes "length tm1 = length tm2"
    and "previous \<noteq> EM \<Longrightarrow> tm1 ! nat (value_of previous) = tm2 ! nat (value_of previous)"
  shows "computer_move previous tm1 randint = computer_move previous tm2 randint"
proof (cases "previous = EM")
  case True
  then show ?thesis by (simp add: computer_move_def)
next
  case False
  have nn: "0 \<le> value_of previous" using False by (cases previous) auto
  show ?thesis
  proof (cases "value_of previous < int (length tm2)")
    case True
    then show ?thesis
      using False nn assms by (simp add: computer_move_def np_index_def)
  next
    case False
    then show ?thesis
      using nn assms(1) by (simp add: computer_move_def np_index_def)
  qed
qed


section \<open>The claims\<close>

subsection \<open>C1: the update when the guard passes\<close>



subsection \<open>C2: the decision\<close>



subsection \<open>C3: every reachable cell is between 0 and 1\<close>



subsection \<open>C4: the lower bound of a cell\<close>




subsection \<open>C5: the initial table\<close>

text \<open>
  Claim C5 says that every cell of the initial table is 1/9. It is not: the source writes
  the literal \<open>0.11\<close> in every cell.
\<close>

theorem initial_cell_is_not_a_ninth: "transition_matrix ! 0 ! 0 \<noteq> 1 / 9"
  by (simp add: transition_matrix_def)

text \<open>
  Claim C5, amended. The initial table has nine rows of nine cells, and every cell is
  \<open>0.11\<close>.
\<close>

theorem transition_matrix_initial:
  "shape_9x9 transition_matrix \<and> (\<forall>i<9. \<forall>j<9. transition_matrix ! i ! j = 11 / 100)"
  by (simp add: initial_shape initial_cells)

theorem transition_matrix_initial_witness:
  "(4::nat) < 9 \<and> (7::nat) < 9 \<and> transition_matrix ! 4 ! 7 = 11 / 100"
  using transition_matrix_initial by simp

subsection \<open>C6: when the table is left as it is\<close>



subsection \<open>C7: the result of a round\<close>

text \<open>
  Claim C7. For moves in 0, 1, 2: equal moves give a tie (0); for distinct moves the
  player wins (1) exactly when the computer, with the moves exchanged, would make the
  player lose (-1), and the player wins exactly when the player's move beats the
  computer's in the cycle.
\<close>

theorem decide_round_result_cycle:
  assumes "a \<in> {0, 1, 2}" "b \<in> {0, 1, 2}"
  shows "decide_round_result a a = Inr 0 \<and>
         (a \<noteq> b \<longrightarrow>
            (decide_round_result a b = Inr 1 \<longleftrightarrow> decide_round_result b a = Inr (-1)) \<and>
            (decide_round_result a b = Inr 1 \<longleftrightarrow> beats a b))"
  using assms
  by (auto simp: decide_round_result_def what_beats_what_dict_def beats_def)

theorem decide_round_result_cycle_witness:
  "(0::int) \<in> {0, 1, 2} \<and> (2::int) \<in> {0, 1, 2} \<and> (0::int) \<noteq> 2 \<and>
   decide_round_result 0 0 = Inr 0 \<and> decide_round_result 0 2 = Inr 1 \<and>
   decide_round_result 2 0 = Inr (-1) \<and> beats 0 2"
proof -
  have b: "beats 0 2" by (simp add: beats_def)
  have m: "(0::int) \<in> {0, 1, 2}" "(2::int) \<in> {0, 1, 2}" by simp_all
  show ?thesis
    using decide_round_result_cycle [OF m] b by auto
qed

subsection \<open>C8: moves outside the domain\<close>

text \<open>
  Claim C8 says that a move outside 0, 1, 2 makes the evaluation of a round fail. It does
  not always: two equal moves outside the domain give a tie, and a move of the computer
  outside the domain gives a loss.
\<close>

theorem decide_round_result_accepts_invalid_moves:
  "(5::int) \<notin> {0, 1, 2} \<and> decide_round_result 5 5 = Inr 0 \<and>
   decide_round_result 0 5 = Inr (-1)"
  by (simp add: decide_round_result_def what_beats_what_dict_def)

text \<open>
  Claim C8, amended. \<open>decide_round_result\<close> does not check its arguments. It fails,
  with the \<open>KeyError\<close> of the dictionary, exactly when the two moves differ and the
  player's move is outside 0, 1, 2; otherwise it returns a result: a tie for equal moves,
  a win when the player's move beats the computer's, a loss in every other case.
\<close>

theorem decide_round_result_cases:
  "decide_round_result p c =
     (if p = c then Inr 0
      else if p \<notin> {0, 1, 2} then Inl KeyError
      else if beats p c then Inr 1 else Inr (-1))"
  by (auto simp: decide_round_result_def what_beats_what_dict_def beats_def)

subsection \<open>C9: the decision reads one row\<close>

text \<open>
  Claim C9. For a previous state other than \<open>EM\<close>, two tables of nine rows of nine
  cells that agree on the nine cells of the row of that state give the same move, whatever
  their other rows hold. (\<open>computer_move\<close> assigns to no cell of the table: the model
  returns a move and no table.)
\<close>

theorem computer_move_reads_one_row:
  assumes "shape_9x9 tm1" "shape_9x9 tm2" "previous \<noteq> EM"
    and "\<forall>j<9. tm1 ! nat (value_of previous) ! j = tm2 ! nat (value_of previous) ! j"
  shows "computer_move previous tm1 randint = computer_move previous tm2 randint"
proof -
  let ?r = "nat (value_of previous)"
  have r: "?r < 9" by (rule row_index_lt [OF assms(3)])
  have l1: "length (tm1 ! ?r) = 9" and l2: "length (tm2 ! ?r) = 9"
    using assms(1,2) r by (simp_all add: shape_row)
  have rows: "tm1 ! ?r = tm2 ! ?r"
  proof (rule nth_equalityI)
    show "length (tm1 ! ?r) = length (tm2 ! ?r)" using l1 l2 by simp
  next
    fix j assume "j < length (tm1 ! ?r)"
    then show "tm1 ! ?r ! j = tm2 ! ?r ! j" using assms(4) l1 by simp
  qed
  have len: "length tm1 = length tm2"
    using assms(1,2) by (simp add: shape_9x9_def)
  show ?thesis
    using len rows by (rule computer_move_row)
qed

text \<open>
  The initial table and the table after the game of fourteen rounds differ in the row of
  \<open>LR\<close> and agree on the row of \<open>VR\<close>.
\<close>

theorem computer_move_reads_one_row_witness:
  "shape_9x9 transition_matrix \<and>
   shape_9x9 (transition_matrix
        [1 := [1/10, 1/10, 1/10, 1/5, 1/10, 1/10, 1/10, 1/10, 1/10],
         2 := [1/10, 1/10, 1/10, 1/5, 1/10, 1/10, 1/10, 1/10, 1/10],
         3 := [0, 0, 1/10, 1, 0, 0, 0, 0, 0]]) \<and>
   VR \<noteq> EM \<and>
   transition_matrix ! 0 =
     transition_matrix
        [1 := [1/10, 1/10, 1/10, 1/5, 1/10, 1/10, 1/10, 1/10, 1/10],
         2 := [1/10, 1/10, 1/10, 1/5, 1/10, 1/10, 1/10, 1/10, 1/10],
         3 := [0, 0, 1/10, 1, 0, 0, 0, 0, 0]] ! 0 \<and>
   transition_matrix ! 3 \<noteq>
     transition_matrix
        [1 := [1/10, 1/10, 1/10, 1/5, 1/10, 1/10, 1/10, 1/10, 1/10],
         2 := [1/10, 1/10, 1/10, 1/5, 1/10, 1/10, 1/10, 1/10, 1/10],
         3 := [0, 0, 1/10, 1, 0, 0, 0, 0, 0]] ! 3 \<and>
   computer_move VR transition_matrix 2 =
     computer_move VR (transition_matrix
        [1 := [1/10, 1/10, 1/10, 1/5, 1/10, 1/10, 1/10, 1/10, 1/10],
         2 := [1/10, 1/10, 1/10, 1/5, 1/10, 1/10, 1/10, 1/10, 1/10],
         3 := [0, 0, 1/10, 1, 0, 0, 0, 0, 0]]) 2"
proof -
  let ?m = "transition_matrix
        [1 := [1/10, 1/10, 1/10, 1/5, 1/10, 1/10, 1/10, 1/10, 1/10],
         2 := [1/10, 1/10, 1/10, 1/5, 1/10, 1/10, 1/10, 1/10, 1/10],
         3 := [0, 0, 1/10, 1, 0, 0, 0, 0, 0]]"
  have sm: "shape_9x9 ?m" by (rule reachable_shape [OF reachable_after_fourteen_rounds])
  have ne: "VR \<noteq> EM" by simp
  have same: "transition_matrix ! 0 = ?m ! 0" by simp
  have diff: "transition_matrix ! 3 \<noteq> ?m ! 3" by (simp add: transition_matrix_def)
  have "\<forall>j<9. transition_matrix ! nat (value_of VR) ! j = ?m ! nat (value_of VR) ! j"
    by simp
  then have "computer_move VR transition_matrix 2 = computer_move VR ?m 2"
    by (rule computer_move_reads_one_row [OF initial_shape sm ne])
  then show ?thesis using initial_shape sm ne same diff by blast
qed

subsection \<open>C10: the state returned by \<open>update_probabilities\<close>\<close>

text \<open>
  Claim C10. For a move of the player in 0, 1, 2 and a table of nine rows of nine cells,
  \<open>update_probabilities\<close> succeeds and returns the state computed from the move and
  the result of the round alone: its value is the move for a win, the move plus 3 for a
  loss and the move plus 6 otherwise, and it is never \<open>EM\<close>. Neither the table nor
  the previous state, and so neither whether the table was updated, enters that state.
\<close>

theorem update_probabilities_state:
  assumes "player_choice \<in> {0, 1, 2}" "shape_9x9 tm"
  shows "\<exists>s tm'.
     update_probabilities player_choice round_result last_move_outcome tm = Inr (s, tm') \<and>
     current_state_of player_choice round_result = Inr s \<and> s \<noteq> EM \<and>
     value_of s = player_choice + (if round_result = 1 then 0 else if round_result = -1 then 3 else 6)"
proof -
  have "\<exists>s. current_state_of player_choice round_result = Inr s \<and> s \<noteq> EM \<and>
     value_of s =
       player_choice + (if round_result = 1 then 0 else if round_result = -1 then 3 else 6)"
    using assms(1) by (auto simp: current_state_of_def States_of_value_def)
  then obtain s where s: "current_state_of player_choice round_result = Inr s"
    and v: "s \<noteq> EM \<and> value_of s =
       player_choice + (if round_result = 1 then 0 else if round_result = -1 then 3 else 6)"
    by blast
  obtain tm' where "reinforce last_move_outcome s tm = Inr tm'"
    using reinforce_total [OF assms(2)] by blast
  then have "update_probabilities player_choice round_result last_move_outcome tm = Inr (s, tm')"
    by (simp add: update_probabilities_def s)
  then show ?thesis using s v by blast
qed

text \<open>The round won with scissors on the table where the row of \<open>LR\<close> is frozen.\<close>

theorem update_probabilities_state_witness:
  "(2::int) \<in> {0, 1, 2} \<and>
   shape_9x9 (transition_matrix
        [1 := [1/10, 1/10, 1/10, 1/5, 1/10, 1/10, 1/10, 1/10, 1/10],
         2 := [1/10, 1/10, 1/10, 1/5, 1/10, 1/10, 1/10, 1/10, 1/10],
         3 := [0, 0, 1/10, 1, 0, 0, 0, 0, 0]]) \<and>
   update_probabilities 2 1 LR (transition_matrix
        [1 := [1/10, 1/10, 1/10, 1/5, 1/10, 1/10, 1/10, 1/10, 1/10],
         2 := [1/10, 1/10, 1/10, 1/5, 1/10, 1/10, 1/10, 1/10, 1/10],
         3 := [0, 0, 1/10, 1, 0, 0, 0, 0, 0]]) =
   Inr (VS, transition_matrix
        [1 := [1/10, 1/10, 1/10, 1/5, 1/10, 1/10, 1/10, 1/10, 1/10],
         2 := [1/10, 1/10, 1/10, 1/5, 1/10, 1/10, 1/10, 1/10, 1/10],
         3 := [0, 0, 1/10, 1, 0, 0, 0, 0, 0]]) \<and>
   current_state_of 2 1 = Inr VS \<and> VS \<noteq> EM \<and> value_of VS = 2 + 0"
proof -
  let ?m = "transition_matrix
        [1 := [1/10, 1/10, 1/10, 1/5, 1/10, 1/10, 1/10, 1/10, 1/10],
         2 := [1/10, 1/10, 1/10, 1/5, 1/10, 1/10, 1/10, 1/10, 1/10],
         3 := [0, 0, 1/10, 1, 0, 0, 0, 0, 0]]"
  have sm: "shape_9x9 ?m" by (rule reachable_shape [OF reachable_after_fourteen_rounds])
  have pc: "(2::int) \<in> {0, 1, 2}" by simp
  obtain s tm' where u: "update_probabilities 2 1 LR ?m = Inr (s, tm')"
    and c: "current_state_of 2 1 = Inr s" and "s \<noteq> EM"
    and "value_of s = 2 + (if (1::int) = 1 then 0 else if (1::int) = -1 then 3 else 6)"
    using update_probabilities_state [OF pc sm, of 1 LR] by blast
  from u frozen_round have "s = VS" by simp
  then show ?thesis using sm c frozen_round by simp
qed

end
